theory Spec2Isabelle
  imports Complex_Main
begin

section \<open>The product hotspot component (assets/product-hotspot.js)\<close>

text \<open>
  The component owns a trigger, a dialog (found again by \<^verbatim>\<open>querySelector\<close> in every
  method) and is positioned inside its parent element. The embedding keeps the component's
  fields, the parts of the DOM its methods read and write, and the pending callbacks of the
  event loop in one record, and every method becomes a function on that record.
\<close>

subsection \<open>Numbers\<close>

text \<open>
  The coordinates of \<^verbatim>\<open>getBoundingClientRect\<close> and everything the placement computes from
  them are JavaScript numbers: IEEE 754 binary64 values, with every sum, difference and
  quotient rounded to the nearest double, ties to the even significand. A finite double is
  a rational number; \<open>Finite q\<close> is the double \<open>q\<close> when \<open>q\<close> is one, and \<^verbatim>\<open>-0\<close> is not told
  apart from \<^verbatim>\<open>0\<close> (the code only adds, subtracts, halves and compares, which do not
  tell them apart either).
\<close>

datatype number = NaN | Infinity | NegInfinity | Finite rat

text \<open>The number of binary digits of a positive whole number.\<close>

function bit_length :: "int \<Rightarrow> int" where
  "bit_length n = (if n \<le> 0 then 0 else 1 + bit_length (n div 2))"
  by pat_completeness auto
termination
  by (relation "measure nat") auto

declare bit_length.simps [simp del]

text \<open>The binary exponent \<open>e\<close> of a positive rational: \<open>2 powi e \<le> x < 2 powi (e + 1)\<close>.\<close>

definition exponent :: "rat \<Rightarrow> int" where
  "exponent x =
     (if 1 \<le> x then bit_length \<lfloor>x\<rfloor> - 1
      else (let k = bit_length \<lfloor>1 / x\<rfloor> - 1
            in if x = 2 powi (- k) then - k else - k - 1))"

definition round_half_even :: "rat \<Rightarrow> int" where
  "round_half_even y =
     (let f = \<lfloor>y\<rfloor>; r = y - of_int f
      in if r < 1 / 2 then f else if 1 / 2 < r then f + 1 else if even f then f else f + 1)"

text \<open>
  Rounding to binary64: 53 significant binary digits, the smallest exponent -1022 (below
  it the doubles are the multiples of \<open>2 powi (- 1074)\<close>), and infinity from \<open>2 powi 1024\<close>
  on.
\<close>

definition fl :: "rat \<Rightarrow> number" where
  "fl x =
     (if x = 0 then Finite 0
      else
        (let q = 2 powi (max (exponent \<bar>x\<bar>) (- 1022) - 52);
             v = of_int (round_half_even (x / q)) * q
         in if 2 powi 1024 \<le> \<bar>v\<bar> then (if 0 < v then Infinity else NegInfinity)
            else Finite v))"

text \<open>A decimal literal of the source, or a decimal coordinate of a page, as a number.\<close>

definition lit :: "rat \<Rightarrow> number" where
  "lit x = fl x"

text \<open>The operators \<^verbatim>\<open>+\<close>, unary and binary \<^verbatim>\<open>-\<close>, and \<^verbatim>\<open>/ 2\<close>.\<close>

fun js_add :: "number \<Rightarrow> number \<Rightarrow> number" where
  "js_add (Finite a) (Finite b) = fl (a + b)"
| "js_add NaN y = NaN"
| "js_add x NaN = NaN"
| "js_add Infinity NegInfinity = NaN"
| "js_add NegInfinity Infinity = NaN"
| "js_add Infinity y = Infinity"
| "js_add NegInfinity y = NegInfinity"
| "js_add x Infinity = Infinity"
| "js_add x NegInfinity = NegInfinity"

fun js_neg :: "number \<Rightarrow> number" where
  "js_neg NaN = NaN"
| "js_neg Infinity = NegInfinity"
| "js_neg NegInfinity = Infinity"
| "js_neg (Finite a) = Finite (- a)"

definition js_sub :: "number \<Rightarrow> number \<Rightarrow> number" where
  "js_sub x y = js_add x (js_neg y)"

fun js_half :: "number \<Rightarrow> number" where
  "js_half (Finite a) = fl (a / 2)"
| "js_half x = x"

text \<open>The comparisons \<^verbatim>\<open><\<close>, \<^verbatim>\<open><=\<close>, \<^verbatim>\<open>>\<close>, \<^verbatim>\<open>>=\<close> and \<^verbatim>\<open>!==\<close>; all but the last are false on NaN.\<close>

fun js_lt :: "number \<Rightarrow> number \<Rightarrow> bool" where
  "js_lt (Finite a) (Finite b) = (a < b)"
| "js_lt NegInfinity (Finite b) = True"
| "js_lt NegInfinity Infinity = True"
| "js_lt (Finite a) Infinity = True"
| "js_lt x y = False"

fun js_le :: "number \<Rightarrow> number \<Rightarrow> bool" where
  "js_le (Finite a) (Finite b) = (a \<le> b)"
| "js_le NaN y = False"
| "js_le x NaN = False"
| "js_le NegInfinity y = True"
| "js_le x Infinity = True"
| "js_le x y = False"

definition js_gt :: "number \<Rightarrow> number \<Rightarrow> bool" where
  "js_gt x y = js_lt y x"

definition js_ge :: "number \<Rightarrow> number \<Rightarrow> bool" where
  "js_ge x y = js_le y x"

fun js_strict_eq :: "number \<Rightarrow> number \<Rightarrow> bool" where
  "js_strict_eq (Finite a) (Finite b) = (a = b)"
| "js_strict_eq Infinity Infinity = True"
| "js_strict_eq NegInfinity NegInfinity = True"
| "js_strict_eq x y = False"

definition js_strict_neq :: "number \<Rightarrow> number \<Rightarrow> bool" where
  "js_strict_neq x y = (\<not> js_strict_eq x y)"

subsection \<open>Geometry: the placement decision of \<^verbatim>\<open>#calculateDialogPlacement\<close>\<close>

record DOMRect =
  rect_left :: number
  rect_top :: number
  rect_right :: number
  rect_bottom :: number
  rect_width :: number
  rect_height :: number

datatype x_placement = x_right | x_left | x_center

datatype y_placement = y_bottom | y_top

definition BUTTON_GAP :: number where
  "BUTTON_GAP = Finite 10"

definition CONTAINER_GAP :: number where
  "CONTAINER_GAP = Finite 10"

definition TOTAL_GAP :: number where
  "TOTAL_GAP = js_add BUTTON_GAP CONTAINER_GAP"

text \<open>The button position relative to the container (lines 136 to 139).\<close>

definition buttonLeft :: "DOMRect \<Rightarrow> DOMRect \<Rightarrow> number" where
  "buttonLeft containerRect triggerRect = js_sub (rect_left triggerRect) (rect_left containerRect)"

definition buttonRight :: "DOMRect \<Rightarrow> DOMRect \<Rightarrow> number" where
  "buttonRight containerRect triggerRect = js_sub (rect_right triggerRect) (rect_left containerRect)"

definition buttonTop :: "DOMRect \<Rightarrow> DOMRect \<Rightarrow> number" where
  "buttonTop containerRect triggerRect = js_sub (rect_top triggerRect) (rect_top containerRect)"

definition buttonBottom :: "DOMRect \<Rightarrow> DOMRect \<Rightarrow> number" where
  "buttonBottom containerRect triggerRect = js_sub (rect_bottom triggerRect) (rect_top containerRect)"

text \<open>The available space (lines 142 and 143).\<close>

definition spaceRight :: "DOMRect \<Rightarrow> DOMRect \<Rightarrow> number" where
  "spaceRight containerRect triggerRect =
     js_sub (js_sub (rect_width containerRect) (buttonRight containerRect triggerRect))
       CONTAINER_GAP"

definition spaceLeft :: "DOMRect \<Rightarrow> DOMRect \<Rightarrow> number" where
  "spaceLeft containerRect triggerRect =
     js_sub (buttonLeft containerRect triggerRect) CONTAINER_GAP"

text \<open>The horizontal placement (lines 146 to 154).\<close>

definition placement_x :: "DOMRect \<Rightarrow> DOMRect \<Rightarrow> number \<Rightarrow> x_placement" where
  "placement_x containerRect triggerRect dialogWidth =
     (if js_ge (spaceRight containerRect triggerRect) (js_add dialogWidth BUTTON_GAP) then x_right
      else if js_ge (spaceLeft containerRect triggerRect) (js_add dialogWidth BUTTON_GAP)
      then x_left
      else x_center)"

text \<open>
  The vertical placement and the vertical offset (lines 157 to 196). The result is the pair
  of \<^verbatim>\<open>y\<close> and \<^verbatim>\<open>verticalOffset\<close>, which start as \<^verbatim>\<open>'bottom'\<close> and \<^verbatim>\<open>0\<close>.
\<close>

definition placement_y ::
  "x_placement \<Rightarrow> DOMRect \<Rightarrow> DOMRect \<Rightarrow> number \<Rightarrow> y_placement \<times> number" where
  "placement_y x containerRect triggerRect dialogHeight =
     (if x \<noteq> x_center then
        (let dialogStartY = buttonTop containerRect triggerRect;
             dialogEndY = js_add (buttonTop containerRect triggerRect) dialogHeight
         in if js_gt dialogEndY (js_sub (rect_height containerRect) CONTAINER_GAP) then
              (let dialogStartY = js_sub (buttonBottom containerRect triggerRect) dialogHeight;
                   dialogEndY = buttonBottom containerRect triggerRect
               in if js_lt dialogStartY CONTAINER_GAP then
                    (y_top, js_sub CONTAINER_GAP dialogStartY)
                  else if js_gt dialogEndY (js_sub (rect_height containerRect) CONTAINER_GAP) then
                    (y_top,
                     js_neg (js_sub dialogEndY (js_sub (rect_height containerRect) CONTAINER_GAP)))
                  else (y_top, Finite 0))
            else if js_lt dialogStartY CONTAINER_GAP then
              (y_bottom, js_sub CONTAINER_GAP dialogStartY)
            else (y_bottom, Finite 0))
      else
        (if js_ge (js_sub (rect_height containerRect) (buttonBottom containerRect triggerRect))
              (js_add dialogHeight TOTAL_GAP) then (y_bottom, Finite 0)
         else if js_ge (buttonTop containerRect triggerRect) (js_add dialogHeight TOTAL_GAP)
         then (y_top, Finite 0)
         else (if js_lt (buttonTop containerRect triggerRect)
                    (js_half (rect_height containerRect))
               then y_bottom else y_top, Finite 0)))"

subsection \<open>The DOM nodes and the component\<close>

text \<open>
  An event listener is identified by the function object that was registered. The three
  arrow-function fields are one object each for the component's lifetime; every call of
  \<^verbatim>\<open>#setupDesktopListeners\<close> creates a new \<^verbatim>\<open>pointerenterHandler\<close> closure, numbered here.
\<close>

datatype listener =
  PointerenterHandler nat
  | HandlePointerLeave
  | LightDismissMouse
  | LightDismissKeyboard

datatype event_type = pointerenter | pointerleave | click | keydown | keyup

type_synonym listeners = "(event_type \<times> listener) list"

text \<open>
  \<^verbatim>\<open>addEventListener\<close> ignores a listener that is already registered for the type;
  \<^verbatim>\<open>removeEventListener\<close> of one that is not registered does nothing.
\<close>

definition addEventListener :: "event_type \<Rightarrow> listener \<Rightarrow> listeners \<Rightarrow> listeners" where
  "addEventListener ty h ls = (if (ty, h) \<in> set ls then ls else ls @ [(ty, h)])"

definition removeEventListener :: "event_type \<Rightarrow> listener \<Rightarrow> listeners \<Rightarrow> listeners" where
  "removeEventListener ty h ls = removeAll (ty, h) ls"

text \<open>
  The dialog: its \<^verbatim>\<open>open\<close> attribute, the three \<^verbatim>\<open>dataset\<close> entries and the four inline style
  properties the component touches (\<open>None\<close> is an entry or property that is not set), its
  listeners, and the size \<^verbatim>\<open>getBoundingClientRect\<close> reports for it while it is laid out
  for measurement. \<^verbatim>\<open>data-placement\<close> holds the string \<^verbatim>\<open>x,y\<close>, kept as the pair.
\<close>

record dialog_element =
  dialog_open :: bool
  data_showing :: "string option"
  data_closing :: "string option"
  data_placement :: "(x_placement \<times> y_placement) option"
  style_visibility :: "string option"
  style_display :: "string option"
  style_transform :: "string option"
  style_vertical_offset :: "number option"
  measured_width :: number
  measured_height :: number
  dialog_listeners :: listeners

record trigger_element =
  trigger_rect :: DOMRect
  trigger_listeners :: listeners

text \<open>
  The component. \<open>trigger\<close> is \<^verbatim>\<open>this.refs.trigger\<close>, \<open>dialog\<close> is
  \<^verbatim>\<open>this.querySelector('dialog')\<close> and \<open>parentElement\<close> is the parent with its bounding
  rectangle; each is \<open>None\<close> when the node is absent. No method adds or removes a node.
  \<open>timer\<close> is the handle of \<^verbatim>\<open>this.timer\<close>: \<^verbatim>\<open>setTimeout\<close> returns an integer greater than
  zero, so the test \<^verbatim>\<open>if (this.timer)\<close> is the test that the handle is not null.
  \<open>timeouts\<close> are the hover timers (120 ms) the event loop still holds, \<open>timeout_count\<close> the
  number of handles given out. \<open>shows_in_flight\<close> and \<open>closes_in_flight\<close> count the calls of
  the two async methods that are suspended at their \<^verbatim>\<open>await\<close>.
\<close>

record hotspot =
  trigger :: "trigger_element option"
  dialog :: "dialog_element option"
  parentElement :: "DOMRect option"
  body_listeners :: listeners
  pointerenterHandler :: "nat option"
  closure_count :: nat
  timer :: "nat option"
  timeouts :: "nat list"
  timeout_count :: nat
  shows_in_flight :: nat
  closes_in_flight :: nat

datatype error = TypeError

definition clearTimeout :: "nat \<Rightarrow> nat list \<Rightarrow> nat list" where
  "clearTimeout t ts = removeAll t ts"

text \<open>
  The statement \<^verbatim>\<open>if (this.timer) { clearTimeout(this.timer); this.timer = null; }\<close>, which
  the source has twice (lines 79 to 82 and 222 to 225).
\<close>

definition clear_timer :: "hotspot \<Rightarrow> hotspot" where
  "clear_timer s =
     (case timer s of
        None \<Rightarrow> s
      | Some t \<Rightarrow> s\<lparr>timeouts := clearTimeout t (timeouts s), timer := None\<rparr>)"

subsection \<open>Listener setup and teardown (lines 46 to 95)\<close>

text \<open>
  The body of the \<^verbatim>\<open>pointerenterHandler\<close> closure (lines 53 to 60). The closure exists
  only where setup found both nodes, and it keeps them.
\<close>

definition pointerenter_handler :: "hotspot \<Rightarrow> hotspot" where
  "pointerenter_handler s =
     (case dialog s of
        None \<Rightarrow> s
      | Some d \<Rightarrow>
          if dialog_open d then s
          else
            (let t = Suc (timeout_count s)
             in s\<lparr>timer := Some t,
                  timeouts := timeouts s @ [t],
                  timeout_count := t,
                  trigger := map_option
                    (\<lambda>tr. tr\<lparr>trigger_listeners :=
                       addEventListener pointerleave HandlePointerLeave (trigger_listeners tr)\<rparr>)
                    (trigger s)\<rparr>))"

definition setupDesktopListeners :: "hotspot \<Rightarrow> hotspot" where
  "setupDesktopListeners s =
     (case trigger s of
        None \<Rightarrow> s
      | Some tr \<Rightarrow>
          (case dialog s of
             None \<Rightarrow> s
           | Some d \<Rightarrow>
               s\<lparr>pointerenterHandler := Some (closure_count s),
                 closure_count := Suc (closure_count s),
                 trigger := Some (tr\<lparr>trigger_listeners :=
                   addEventListener pointerenter (PointerenterHandler (closure_count s))
                     (trigger_listeners tr)\<rparr>)\<rparr>))"

definition removeDesktopListeners :: "hotspot \<Rightarrow> hotspot" where
  "removeDesktopListeners s =
     (let s1 =
        (case trigger s of
           None \<Rightarrow> s
         | Some tr \<Rightarrow>
             (case pointerenterHandler s of
                None \<Rightarrow> s
              | Some h \<Rightarrow>
                  s\<lparr>trigger := Some (tr\<lparr>trigger_listeners :=
                       removeEventListener pointerleave HandlePointerLeave
                         (removeEventListener pointerenter (PointerenterHandler h)
                            (trigger_listeners tr))\<rparr>),
                    pointerenterHandler := None\<rparr>))
      in clear_timer s1)"

text \<open>\<open>isMobile\<close> is the value of \<^verbatim>\<open>isMobileBreakpoint()\<close> at the time of the event.\<close>

definition handleBreakpointChange :: "bool \<Rightarrow> hotspot \<Rightarrow> hotspot" where
  "handleBreakpointChange isMobile s =
     (let s1 = removeDesktopListeners s
      in if \<not> isMobile then setupDesktopListeners s1 else s1)"

subsection \<open>The placement computation (lines 101 to 210)\<close>

text \<open>The invisible measurement (lines 124 to 127) and the reset after it (lines 132 to 134).\<close>

definition show_invisibly :: "dialog_element \<Rightarrow> dialog_element" where
  "show_invisibly d =
     d\<lparr>style_visibility := Some ''hidden'',
       style_display := Some ''block'',
       style_transform := Some ''none'',
       data_placement := None\<rparr>"

definition reset_dialog_state :: "dialog_element \<Rightarrow> dialog_element" where
  "reset_dialog_state d =
     d\<lparr>style_display := None, style_visibility := None, style_transform := None\<rparr>"

text \<open>
  The method up to the promise it returns. Without a parent element it returns
  \<^verbatim>\<open>undefined\<close> and has changed nothing. \<^verbatim>\<open>trigger.getBoundingClientRect()\<close> and
  \<^verbatim>\<open>dialog.style\<close> are not guarded: on an absent node they throw a TypeError, before any
  write.
\<close>

definition calculateDialogPlacement :: "hotspot \<Rightarrow> error + hotspot" where
  "calculateDialogPlacement s =
     (case parentElement s of
        None \<Rightarrow> Inr s
      | Some containerRect \<Rightarrow>
          (case trigger s of
             None \<Rightarrow> Inl TypeError
           | Some tr \<Rightarrow>
               (case dialog s of
                  None \<Rightarrow> Inl TypeError
                | Some d \<Rightarrow>
                    (let triggerRect = trigger_rect tr;
                         d1 = show_invisibly d;
                         dialogWidth = measured_width d1;
                         dialogHeight = measured_height d1;
                         d2 = reset_dialog_state d1;
                         x = placement_x containerRect triggerRect dialogWidth;
                         (y, verticalOffset) = placement_y x containerRect triggerRect dialogHeight;
                         d3 = d2\<lparr>data_placement := Some (x, y),
                                 style_vertical_offset :=
                                   (if js_strict_neq verticalOffset (Finite 0) then Some verticalOffset
                                    else None)\<rparr>
                     in Inr (s\<lparr>dialog := Some d3\<rparr>)))))"

subsection \<open>Showing and closing (lines 241 to 280)\<close>

text \<open>
  An async method is two functions: the part that runs in the call, up to the \<^verbatim>\<open>await\<close>,
  and the part that runs when the awaited promise has settled. Other events run between
  the two. \<open>Inl\<close> is the rejected promise of a call that threw.
\<close>

definition showDialog :: "hotspot \<Rightarrow> error + hotspot" where
  "showDialog s =
     (case dialog s of
        None \<Rightarrow> Inr s
      | Some d \<Rightarrow>
          (case calculateDialogPlacement s of
             Inl e \<Rightarrow> Inl e
           | Inr s1 \<Rightarrow> Inr (s1\<lparr>shows_in_flight := Suc (shows_in_flight s1)\<rparr>)))"

definition showDialog_resume :: "hotspot \<Rightarrow> hotspot" where
  "showDialog_resume s =
     (case dialog s of
        None \<Rightarrow> s
      | Some d \<Rightarrow>
          s\<lparr>dialog := Some (d\<lparr>data_showing := Some ''true'',
                               dialog_open := True,
                               dialog_listeners :=
                                 addEventListener pointerleave HandlePointerLeave (dialog_listeners d)\<rparr>),
            body_listeners :=
              addEventListener keyup LightDismissKeyboard
                (addEventListener keydown LightDismissKeyboard
                   (addEventListener click LightDismissMouse (body_listeners s)))\<rparr>)"

definition closeDialog :: "hotspot \<Rightarrow> hotspot" where
  "closeDialog s =
     (case dialog s of
        None \<Rightarrow> s
      | Some d \<Rightarrow>
          s\<lparr>dialog := Some (d\<lparr>data_closing := Some ''true'',
                               dialog_open := False,
                               dialog_listeners :=
                                 removeEventListener pointerleave HandlePointerLeave (dialog_listeners d)\<rparr>),
            body_listeners :=
              removeEventListener keyup LightDismissKeyboard
                (removeEventListener keydown LightDismissKeyboard
                   (removeEventListener click LightDismissMouse (body_listeners s))),
            trigger := map_option
              (\<lambda>tr. tr\<lparr>trigger_listeners :=
                 removeEventListener pointerleave HandlePointerLeave (trigger_listeners tr)\<rparr>)
              (trigger s),
            closes_in_flight := Suc (closes_in_flight s)\<rparr>)"

definition closeDialog_resume :: "hotspot \<Rightarrow> hotspot" where
  "closeDialog_resume s =
     (case dialog s of
        None \<Rightarrow> s
      | Some d \<Rightarrow>
          if \<not> dialog_open d then
            s\<lparr>dialog := Some (d\<lparr>data_showing := None, data_closing := None, data_placement := None\<rparr>)\<rparr>
          else s)"

subsection \<open>Dismissal handlers (lines 217 to 239 and 287 to 309)\<close>

datatype node = node_trigger | node_dialog | node_dialog_descendant | node_other

record pointer_event =
  target :: node
  relatedTarget :: "node option"

definition handlePointerLeave :: "pointer_event \<Rightarrow> hotspot \<Rightarrow> hotspot" where
  "handlePointerLeave e s =
     (let s1 = clear_timer s
      in case dialog s1 of
           None \<Rightarrow> s1
         | Some d \<Rightarrow>
             if \<not> dialog_open d then s1
             else
               (let isLeavingTrigger = (trigger s1 \<noteq> None \<and> target e = node_trigger);
                    isLeavingDialog = (target e = node_dialog);
                    isGoingToDialog = (relatedTarget e = Some node_dialog
                                       \<or> relatedTarget e = Some node_dialog_descendant);
                    isGoingToTrigger = (trigger s1 \<noteq> None \<and> relatedTarget e = Some node_trigger)
                in if (isLeavingTrigger \<and> \<not> isGoingToDialog) \<or> (isLeavingDialog \<and> \<not> isGoingToTrigger)
                   then closeDialog s1 else s1))"

text \<open>\<open>clickedOutside\<close> is the value of \<^verbatim>\<open>isClickedOutside(event, dialog)\<close>.\<close>

definition lightDismissMouse :: "bool \<Rightarrow> hotspot \<Rightarrow> hotspot" where
  "lightDismissMouse clickedOutside s =
     (case dialog s of
        None \<Rightarrow> s
      | Some d \<Rightarrow> if clickedOutside then closeDialog s else s)"

text \<open>\<open>focus_in_dialog\<close> is the value of \<^verbatim>\<open>dialog.matches(':is(:focus, :focus-visible, :focus-within)')\<close>.\<close>

record keyboard_event =
  key_type :: event_type
  key :: string
  focus_in_dialog :: bool

definition lightDismissKeyboard :: "keyboard_event \<Rightarrow> hotspot \<Rightarrow> hotspot" where
  "lightDismissKeyboard e s =
     (case dialog s of
        None \<Rightarrow> s
      | Some d \<Rightarrow>
          if (key_type e = keydown \<and> key e = ''Escape'')
             \<or> (key_type e = keyup \<and> \<not> focus_in_dialog e)
          then closeDialog s else s)"

subsection \<open>The component's life cycle and the event loop\<close>

text \<open>
  A new component has the field initialisers of the class (lines 19 and 20): no closure,
  no timer. The three nodes are what the page gives it.
\<close>

definition new_component ::
  "trigger_element option \<Rightarrow> dialog_element option \<Rightarrow> DOMRect option \<Rightarrow> hotspot" where
  "new_component tr d p =
     \<lparr>trigger = tr, dialog = d, parentElement = p, body_listeners = [],
      pointerenterHandler = None, closure_count = 0,
      timer = None, timeouts = [], timeout_count = 0,
      shows_in_flight = 0, closes_in_flight = 0\<rparr>"

text \<open>
  \<^verbatim>\<open>connectedCallback\<close> (lines 22 to 32), without the call of the base class, whose code
  is not part of these sources; the registration on the media query is the event
  \<open>Breakpoint_change\<close> below.
\<close>

definition connectedCallback :: "bool \<Rightarrow> hotspot \<Rightarrow> hotspot" where
  "connectedCallback isMobile s = (if \<not> isMobile then setupDesktopListeners s else s)"

text \<open>
  What the browser does with the component: it delivers an event to the listeners that are
  registered for it on its target, runs a hover timer that is still pending, and resumes a
  suspended \<^verbatim>\<open>showDialog\<close> or \<^verbatim>\<open>closeDialog\<close>. \<^verbatim>\<open>pointerenter\<close> and \<^verbatim>\<open>pointerleave\<close> do not
  bubble. Only the closures are registered for \<^verbatim>\<open>pointerenter\<close>, each runs once. The
  timer callback drops the promise of \<^verbatim>\<open>showDialog\<close>, so a rejection changes nothing.
\<close>

datatype event =
  Pointerenter_on_trigger
  | Pointerleave pointer_event
  | Timeout_fires nat
  | Click_on_body bool
  | Key_on_body keyboard_event
  | Breakpoint_change bool
  | Show_settles
  | Close_settles

definition timer_callback :: "hotspot \<Rightarrow> hotspot" where
  "timer_callback s = (case showDialog s of Inl e \<Rightarrow> s | Inr s1 \<Rightarrow> s1)"

fun step :: "event \<Rightarrow> hotspot \<Rightarrow> hotspot" where
  "step Pointerenter_on_trigger s =
     (case trigger s of
        None \<Rightarrow> s
      | Some tr \<Rightarrow>
          (pointerenter_handler ^^ length (filter (\<lambda>l. fst l = pointerenter) (trigger_listeners tr))) s)"
| "step (Pointerleave e) s =
     (case target e of
        node_trigger \<Rightarrow>
          (case trigger s of
             None \<Rightarrow> s
           | Some tr \<Rightarrow>
               if (pointerleave, HandlePointerLeave) \<in> set (trigger_listeners tr)
               then handlePointerLeave e s else s)
      | node_dialog \<Rightarrow>
          (case dialog s of
             None \<Rightarrow> s
           | Some d \<Rightarrow>
               if (pointerleave, HandlePointerLeave) \<in> set (dialog_listeners d)
               then handlePointerLeave e s else s)
      | node_dialog_descendant \<Rightarrow> s
      | node_other \<Rightarrow> s)"
| "step (Timeout_fires t) s =
     (if t \<in> set (timeouts s) then timer_callback (s\<lparr>timeouts := removeAll t (timeouts s)\<rparr>) else s)"
| "step (Click_on_body clickedOutside) s =
     (if (click, LightDismissMouse) \<in> set (body_listeners s)
      then lightDismissMouse clickedOutside s else s)"
| "step (Key_on_body e) s =
     (if (key_type e, LightDismissKeyboard) \<in> set (body_listeners s)
      then lightDismissKeyboard e s else s)"
| "step (Breakpoint_change isMobile) s = handleBreakpointChange isMobile s"
| "step Show_settles s =
     (if 0 < shows_in_flight s
      then showDialog_resume (s\<lparr>shows_in_flight := shows_in_flight s - 1\<rparr>) else s)"
| "step Close_settles s =
     (if 0 < closes_in_flight s
      then closeDialog_resume (s\<lparr>closes_in_flight := closes_in_flight s - 1\<rparr>) else s)"

text \<open>A sequence of events, run from a state.\<close>

definition run :: "event list \<Rightarrow> hotspot \<Rightarrow> hotspot" where
  "run evs s = fold step evs s"

subsection \<open>What a placement computation publishes\<close>

definition placement_after :: "hotspot \<Rightarrow> (x_placement \<times> y_placement) option" where
  "placement_after s =
     (case calculateDialogPlacement s of
        Inl e \<Rightarrow> None
      | Inr s1 \<Rightarrow> (case dialog s1 of None \<Rightarrow> None | Some d \<Rightarrow> data_placement d))"


subsection \<open>Concrete pages\<close>

text \<open>
  The rectangle of a box at \<open>(l, t)\<close> of size \<open>w\<close> by \<open>h\<close>, given in decimal and read as
  doubles; a DOMRect has \<^verbatim>\<open>right = x + width\<close> and \<^verbatim>\<open>bottom = y + height\<close>.
\<close>

definition rect_of :: "rat \<Rightarrow> rat \<Rightarrow> rat \<Rightarrow> rat \<Rightarrow> DOMRect" where
  "rect_of l t w h =
     \<lparr>rect_left = lit l, rect_top = lit t, rect_right = js_add (lit l) (lit w),
      rect_bottom = js_add (lit t) (lit h), rect_width = lit w, rect_height = lit h\<rparr>"

definition closed_dialog :: "rat \<Rightarrow> rat \<Rightarrow> dialog_element" where
  "closed_dialog w h =
     \<lparr>dialog_open = False, data_showing = None, data_closing = None, data_placement = None,
      style_visibility = None, style_display = None, style_transform = None,
      style_vertical_offset = None, measured_width = lit w, measured_height = lit h,
      dialog_listeners = []\<rparr>"

definition page :: "DOMRect \<Rightarrow> DOMRect \<Rightarrow> rat \<Rightarrow> rat \<Rightarrow> hotspot" where
  "page containerRect triggerRect w h =
     new_component (Some \<lparr>trigger_rect = triggerRect, trigger_listeners = []\<rparr>)
       (Some (closed_dialog w h)) (Some containerRect)"

text \<open>
  A container 400 wide whose corner is at (50, 30) in the viewport, the trigger at x from
  350 to 390 inside it, an overlay 100 wide.
\<close>

definition narrow_right_page :: hotspot where
  "narrow_right_page = page (rect_of 50 30 400 300) (rect_of 400 130 40 40) 100 80"

text \<open>A container 100 high, a trigger from y = 10 to y = 60, an overlay 50 high.\<close>

definition tall_trigger_page :: hotspot where
  "tall_trigger_page = page (rect_of 0 0 400 100) (rect_of 10 10 30 50) 100 50"

text \<open>A container 100 by 100, a trigger from y = 40 to y = 70, an overlay 100 by 50.\<close>

definition small_container_page :: hotspot where
  "small_container_page = page (rect_of 0 0 100 100) (rect_of 30 40 40 30) 100 50"

text \<open>
  The same container with its corner at (50, 30) in the viewport and the trigger from
  y = 10 to y = 30 inside it: its top edge is above the middle, and so is its midpoint.
\<close>

definition small_offset_page :: hotspot where
  "small_offset_page = page (rect_of 50 30 100 100) (rect_of 80 40 40 20) 100 80"




text \<open>
  A container 100 high with its corner at (50, 30) in the viewport, a trigger from y = 60
  to y = 90 inside it, an overlay 50 high.
\<close>

definition top_heavy_page :: hotspot where
  "top_heavy_page = page (rect_of 50 30 400 100) (rect_of 60 90 30 30) 100 50"

text \<open>
  Pages with fractional coordinates, on which the rounding of the double arithmetic
  decides: a container 320.5 wide with the trigger's right edge at 64.1 and an overlay 236.4
  wide; a container 144.5 high with the trigger's top at 23.1 and an overlay 111.4 high; a
  container 91.8 high with a trigger from 46.8 to 52 and an overlay 19.8 high.
\<close>

definition fraction_width_page :: hotspot where
  "fraction_width_page =
     page (rect_of 0 0 (641 / 2) 300) (rect_of 24 100 (401 / 10) 40) (1182 / 5) 80"

definition fraction_height_page :: hotspot where
  "fraction_height_page =
     page (rect_of 0 0 400 (289 / 2)) (rect_of 10 (231 / 10) 30 20) 100 (557 / 5)"

definition fraction_center_page :: hotspot where
  "fraction_center_page =
     page (rect_of 0 0 100 (459 / 5)) (rect_of 30 (234 / 5) 40 (26 / 5)) 100 (99 / 5)"

text \<open>An overlay whose markup sets \<^verbatim>\<open>display\<close> inline.\<close>

definition styled_page :: hotspot where
  "styled_page =
     new_component (Some \<lparr>trigger_rect = rect_of 20 100 40 40, trigger_listeners = []\<rparr>)
       (Some ((closed_dialog 100 80)\<lparr>style_display := Some ''flex''\<rparr>))
       (Some (rect_of 0 0 400 300))"

text \<open>
  A hotspot on a desktop viewport after \<^verbatim>\<open>connectedCallback\<close>, and one that sits directly
  in a shadow root, so that its \<^verbatim>\<open>parentElement\<close> is null.
\<close>

definition hover_page :: hotspot where
  "hover_page = connectedCallback False (page (rect_of 0 0 400 300) (rect_of 20 100 40 40) 100 80)"

definition shadow_root_page :: hotspot where
  "shadow_root_page =
     connectedCallback False
       (new_component (Some \<lparr>trigger_rect = rect_of 20 100 40 40, trigger_listeners = []\<rparr>)
          (Some (closed_dialog 100 80)) None)"

definition leave_trigger :: event where
  "leave_trigger = Pointerleave \<lparr>target = node_trigger, relatedTarget = Some node_other\<rparr>"

definition press_escape :: event where
  "press_escape = Key_on_body \<lparr>key_type = keydown, key = ''Escape'', focus_in_dialog = False\<rparr>"

text \<open>
  One pointer: it enters the trigger, the timer fires and \<^verbatim>\<open>showDialog\<close> waits for the
  placement to settle; the pointer leaves and enters again, which starts timer 2; the
  overlay opens; Escape closes it, which removes the trigger's \<^verbatim>\<open>pointerleave\<close> listener;
  the pointer leaves, unheard, and enters again while timer 2 is still pending.
\<close>

definition reentry_events :: "event list" where
  "reentry_events =
     [Pointerenter_on_trigger, Timeout_fires 1, leave_trigger, Pointerenter_on_trigger,
      Show_settles, press_escape, leave_trigger, Pointerenter_on_trigger]"

text \<open>
  The overlay is open, Escape starts \<^verbatim>\<open>closeDialog\<close>; while its animations run the pointer
  enters the trigger again, the timer fires and the overlay is shown again.
\<close>

definition reopen_events :: "event list" where
  "reopen_events =
     [Pointerenter_on_trigger, Timeout_fires 1, Show_settles, press_escape,
      Pointerenter_on_trigger, Timeout_fires 2, Show_settles]"

subsection \<open>Consistency of the hover wiring\<close>

text \<open>
  The trigger carries only listeners of the component: none while \<^verbatim>\<open>#pointerenterHandler\<close>
  is null, otherwise at most the closure it holds and \<^verbatim>\<open>#handlePointerLeave\<close>, each once.
\<close>

definition wired :: "hotspot \<Rightarrow> bool" where
  "wired s =
     (case trigger s of
        None \<Rightarrow> True
      | Some tr \<Rightarrow>
          (case pointerenterHandler s of
             None \<Rightarrow> trigger_listeners tr = []
           | Some h \<Rightarrow>
               distinct (trigger_listeners tr)
               \<and> set (trigger_listeners tr)
                   \<subseteq> {(pointerenter, PointerenterHandler h), (pointerleave, HandlePointerLeave)}))"

section \<open>Properties of the double arithmetic\<close>

text \<open>
  \<^const>\<open>bit_length\<close> and \<^const>\<open>exponent\<close> compute what their names say, so \<^const>\<open>fl\<close> can
  be evaluated with the exponent given; whole numbers below \<open>2 ^ 53\<close> are doubles; every
  finite result is a multiple of \<open>2 powi (- 1074)\<close>, and a rational that is at least that
  much is rounded to a positive number.
\<close>

lemma bit_length_bounds:
  "0 < n \<Longrightarrow> 1 \<le> bit_length n \<and> 2 ^ nat (bit_length n - 1) \<le> n \<and> n < 2 ^ nat (bit_length n)"
proof (induction n rule: bit_length.induct)
  case (1 n)
  show ?case
  proof (cases "n div 2 = 0")
    case True
    with "1.prems" have "n = 1" by presburger
    then show ?thesis
      by (simp add: bit_length.simps [of 1] bit_length.simps [of 0])
  next
    case False
    with "1.prems" have m: "0 < n div 2" by presburger
    from "1.IH" [OF _ m] "1.prems"
    have ih: "1 \<le> bit_length (n div 2)"
      "2 ^ nat (bit_length (n div 2) - 1) \<le> n div 2"
      "n div 2 < 2 ^ nat (bit_length (n div 2))" by simp_all
    have bl: "bit_length n = 1 + bit_length (n div 2)"
      using "1.prems" by (simp add: bit_length.simps [of n])
    have p: "(2::int) ^ nat (bit_length (n div 2)) = 2 * 2 ^ nat (bit_length (n div 2) - 1)"
      using ih(1) by (metis Suc_nat_eq_nat_zadd1 add.commute diff_add_cancel diff_ge_0_iff_ge power_Suc)
    have p2: "(2::int) ^ nat (1 + bit_length (n div 2)) = 2 * 2 ^ nat (bit_length (n div 2))"
      using ih(1) by (simp add: nat_add_distrib)
    from ih p p2 bl show ?thesis by (simp) presburger
  qed
qed


lemma bit_length_powi:
  assumes "0 < n"
  shows "2 powi (bit_length n - 1) \<le> (of_int n :: rat)"
    "(of_int n :: rat) + 1 \<le> 2 powi (bit_length n)"
proof -
  from bit_length_bounds [OF assms]
  have b: "1 \<le> bit_length n" "2 ^ nat (bit_length n - 1) \<le> n" "n + 1 \<le> 2 ^ nat (bit_length n)"
    by simp_all
  have "(2::rat) powi (bit_length n - 1) = of_int (2 ^ nat (bit_length n - 1))"
    using b(1) by (simp add: power_int_def)
  also have "\<dots> \<le> of_int n"
    using b(2) by (simp only: of_int_le_iff)
  finally show "2 powi (bit_length n - 1) \<le> (of_int n :: rat)" .
  have "(of_int n :: rat) + 1 = of_int (n + 1)" by simp
  also have "\<dots> \<le> of_int (2 ^ nat (bit_length n))"
    using b(3) by (simp only: of_int_le_iff)
  also have "\<dots> = 2 powi (bit_length n)"
    using b(1) by (simp add: power_int_def)
  finally show "(of_int n :: rat) + 1 \<le> 2 powi (bit_length n)" .
qed

lemma exponent_bounds:
  assumes "0 < x"
  shows "2 powi (exponent x) \<le> x \<and> x < 2 powi (exponent x + 1)"
proof (cases "1 \<le> x")
  case True
  then have n: "0 < \<lfloor>x\<rfloor>" by simp
  have e: "exponent x = bit_length \<lfloor>x\<rfloor> - 1"
    using True by (simp add: exponent_def)
  have "(2::rat) powi (exponent x) \<le> of_int \<lfloor>x\<rfloor>"
    using bit_length_powi(1) [OF n] e by simp
  also have "\<dots> \<le> x" by simp
  finally have lo: "2 powi (exponent x) \<le> x" .
  have "x < of_int \<lfloor>x\<rfloor> + 1" using floor_correct [of x] by simp
  also have "\<dots> \<le> (2::rat) powi (exponent x + 1)"
    using bit_length_powi(2) [OF n] e by simp
  finally show ?thesis using lo by simp
next
  case False
  define y where "y = 1 / x"
  define k where "k = bit_length \<lfloor>y\<rfloor> - 1"
  from False assms have y1: "1 < y" by (simp add: y_def)
  then have n: "0 < \<lfloor>y\<rfloor>" by simp
  have "(2::rat) powi k \<le> of_int \<lfloor>y\<rfloor>"
    using bit_length_powi(1) [OF n] by (simp add: k_def)
  also have "\<dots> \<le> y" by simp
  finally have "2 powi k \<le> 1 / x" by (simp add: y_def)
  then have up: "x \<le> 2 powi (- k)"
    using assms by (simp add: power_int_minus field_simps)
  have "y < of_int \<lfloor>y\<rfloor> + 1" using floor_correct [of y] by simp
  also have "\<dots> \<le> (2::rat) powi (k + 1)"
    using bit_length_powi(2) [OF n] by (simp add: k_def)
  finally have "1 / x < 2 powi (k + 1)" by (simp add: y_def)
  moreover have P: "0 < (2::rat) powi (k + 1)" by simp
  ultimately have "inverse (2 powi (k + 1)) < x"
    using assms by (simp add: field_simps)
  moreover have "- k - 1 = - (k + 1)" by simp
  then have "(2::rat) powi (- k - 1) = inverse (2 powi (k + 1))"
    by (simp only: power_int_minus)
  ultimately have lo: "2 powi (- k - 1) < x" by simp
  have ex: "exponent x = (if x = 2 powi (- k) then - k else - k - 1)"
    using False by (simp add: exponent_def k_def y_def Let_def)
  show ?thesis
  proof (cases "x = 2 powi (- k)")
    case True
    have "(2::rat) powi (- k) < 2 powi (- k + 1)"
      by (rule power_int_strict_increasing) simp_all
    with ex True show ?thesis by (simp only: if_True) simp
  next
    case ne: False
    with ex have "exponent x = - k - 1" by (simp only: if_False)
    with lo up ne show ?thesis by simp
  qed
qed

lemma exponent_unique:
  assumes "2 powi e \<le> x" and "x < 2 powi (e + 1)"
  shows "exponent x = e"
proof -
  have "0 < (2::rat) powi e" by simp
  with assms(1) have pos: "0 < x" by linarith
  from exponent_bounds [OF pos]
  have b: "2 powi (exponent x) \<le> x" "x < 2 powi (exponent x + 1)" by simp_all
  have "\<not> exponent x < e"
  proof
    assume "exponent x < e"
    then have "(2::rat) powi (exponent x + 1) \<le> 2 powi e"
      by (intro power_int_increasing) simp_all
    with b(2) assms(1) show False by linarith
  qed
  moreover have "\<not> e < exponent x"
  proof
    assume "e < exponent x"
    then have "(2::rat) powi (e + 1) \<le> 2 powi (exponent x)"
      by (intro power_int_increasing) simp_all
    with b(1) assms(2) show False by linarith
  qed
  ultimately show ?thesis by linarith
qed

text \<open>Rounding, with the exponent given.\<close>

lemma fl_eval:
  assumes "2 powi e \<le> \<bar>x\<bar>" and "\<bar>x\<bar> < 2 powi (e + 1)"
  shows "fl x =
     (let q = 2 powi (max e (- 1022) - 52);
          v = of_int (round_half_even (x / q)) * q
      in if 2 powi 1024 \<le> \<bar>v\<bar> then (if 0 < v then Infinity else NegInfinity) else Finite v)"
proof -
  have "x \<noteq> 0"
  proof
    assume "x = 0"
    with assms(1) have "(2::rat) powi e \<le> 0" by simp
    moreover have "0 < (2::rat) powi e" by simp
    ultimately show False by linarith
  qed
  with exponent_unique [OF assms] show ?thesis by (simp add: fl_def)
qed

lemma round_half_even_of_int [simp]: "round_half_even (of_int m) = m"
  by (simp add: round_half_even_def)

text \<open>A whole number below \<open>2 ^ 53\<close> in absolute value is a double.\<close>

lemma fl_of_int:
  assumes "\<bar>m\<bar> < 2 ^ 53"
  shows "fl (of_int m) = Finite (of_int m)"
proof (cases "m = 0")
  case True
  then show ?thesis by (simp add: fl_def)
next
  case False
  define x :: rat where "x = of_int m"
  define e where "e = exponent \<bar>x\<bar>"
  from False have pos: "0 < \<bar>x\<bar>" by (simp add: x_def)
  from exponent_bounds [OF pos]
  have b: "2 powi e \<le> \<bar>x\<bar>" "\<bar>x\<bar> < 2 powi (e + 1)" by (simp_all add: e_def)
  have "\<bar>x\<bar> < 2 powi 53"
    using assms by (simp add: x_def flip: of_int_abs)
  with b(1) have "(2::rat) powi e < 2 powi 53" by linarith
  then have e53: "e < 53"
    by (rule power_int_le_imp_less_exp [rotated]) simp_all
  have "1 \<le> \<bar>x\<bar>" using False by (simp add: x_def flip: of_int_abs)
  with b(2) have "(2::rat) powi 0 < 2 powi (e + 1)" by simp
  then have e0: "0 \<le> e"
    using power_int_increasing [of "e + 1" 0 "2::rat"] by (cases "0 \<le> e") auto
  define j where "j = nat (52 - e)"
  have q: "(2::rat) powi (max e (- 1022) - 52) = 1 / 2 ^ j"
    using e0 e53 by (simp add: j_def power_int_def max_def field_simps)
  have "x / (1 / 2 ^ j) = of_int (m * 2 ^ j)" by (simp add: x_def)
  then have r: "round_half_even (x / (1 / 2 ^ j)) = m * 2 ^ j"
    by (simp only: round_half_even_of_int)
  have v: "of_int (m * 2 ^ j) * (1 / 2 ^ j) = x" by (simp add: x_def)
  have "\<not> 2 powi 1024 \<le> \<bar>x\<bar>"
    using \<open>\<bar>x\<bar> < 2 powi 53\<close> power_int_increasing [of 53 1024 "2::rat"] by simp
  with pos b q r v show ?thesis
    unfolding fl_eval [OF b] Let_def x_def [symmetric] by simp
qed


lemma fl_numeral:
  "numeral n < (2::int) ^ 53 \<Longrightarrow> fl (numeral n) = Finite (numeral n)"
  "numeral n < (2::int) ^ 53 \<Longrightarrow> fl (- numeral n) = Finite (- numeral n)"
  "fl 0 = Finite 0" "fl 1 = Finite 1" "fl (- 1) = Finite (- 1)"
  using fl_of_int [of "numeral n"] fl_of_int [of "- numeral n"] fl_of_int [of 1]
    fl_of_int [of "- 1"]
  by (simp_all add: fl_def)




lemma floor_rat_numeral:
  "\<lfloor>numeral a / numeral b :: rat\<rfloor> = numeral a div numeral b"
  "\<lfloor>- (numeral a / numeral b) :: rat\<rfloor> = - numeral a div numeral b"
  using floor_divide_of_int_eq [of "numeral a" "numeral b", where ?'a = rat]
    floor_divide_of_int_eq [of "- numeral a" "numeral b", where ?'a = rat]
  by simp_all

lemma TOTAL_GAP_eq: "TOTAL_GAP = Finite 20"
  by (simp add: TOTAL_GAP_def BUTTON_GAP_def CONTAINER_GAP_def fl_numeral)

lemma js_ge_not_gt: "js_ge x y \<Longrightarrow> \<not> js_gt y x"
  by (cases x; cases y) (simp_all add: js_ge_def js_gt_def)


section \<open>Properties of the placement computation\<close>

lemmas geom_defs = placement_x_def placement_y_def spaceRight_def spaceLeft_def buttonLeft_def
  buttonRight_def buttonTop_def buttonBottom_def BUTTON_GAP_def CONTAINER_GAP_def TOTAL_GAP_def

lemmas page_defs = page_def new_component_def closed_dialog_def rect_of_def lit_def js_sub_def
  js_gt_def js_ge_def js_strict_neq_def fl_numeral Let_def

lemmas fl_compute = round_half_even_def Let_def floor_rat_numeral

lemmas handler_defs = pointerenter_handler_def setupDesktopListeners_def removeDesktopListeners_def
  handleBreakpointChange_def clear_timer_def clearTimeout_def addEventListener_def
  removeEventListener_def showDialog_def showDialog_resume_def closeDialog_def
  closeDialog_resume_def handlePointerLeave_def lightDismissMouse_def lightDismissKeyboard_def
  timer_callback_def connectedCallback_def calculateDialogPlacement_def show_invisibly_def
  reset_dialog_state_def

lemmas scenario_defs = run_def hover_page_def shadow_root_page_def styled_page_def
  leave_trigger_def press_escape_def reentry_events_def reopen_events_def

text \<open>
  With the three nodes present the computation does not throw, and the dialog it leaves
  differs from the one it found in the three measurement properties, the placement and the
  offset.
\<close>

lemma calculateDialogPlacement_present:
  assumes "parentElement s = Some c" and "trigger s = Some tr" and "dialog s = Some d"
  shows "calculateDialogPlacement s =
           Inr (s\<lparr>dialog := Some (d\<lparr>
             style_visibility := None, style_display := None, style_transform := None,
             data_placement := Some (placement_x c (trigger_rect tr) (measured_width d),
               fst (placement_y (placement_x c (trigger_rect tr) (measured_width d)) c
                      (trigger_rect tr) (measured_height d))),
             style_vertical_offset :=
               (if js_strict_neq
                     (snd (placement_y (placement_x c (trigger_rect tr) (measured_width d)) c
                        (trigger_rect tr) (measured_height d))) (Finite 0)
                then Some (snd (placement_y (placement_x c (trigger_rect tr) (measured_width d)) c
                      (trigger_rect tr) (measured_height d)))
                else None)\<rparr>)\<rparr>)"
  using assms
  by (simp add: calculateDialogPlacement_def show_invisibly_def reset_dialog_state_def Let_def
      split: prod.splits)

lemma placement_after_present:
  assumes "parentElement s = Some c" and "trigger s = Some tr" and "dialog s = Some d"
  shows "placement_after s =
           Some (placement_x c (trigger_rect tr) (measured_width d),
                 fst (placement_y (placement_x c (trigger_rect tr) (measured_width d)) c
                        (trigger_rect tr) (measured_height d)))"
  by (simp add: placement_after_def calculateDialogPlacement_present [OF assms])


subsection \<open>The model rounds as the code does\<close>

text \<open>
  On the three pages with fractional coordinates exact arithmetic and double arithmetic
  part. 320.5 - 64.1 - 10 is 246.39999999999998 in doubles, below 236.4 + 10, and there
  is no room on the right. 23.1 + 111.4 is 134.5 in doubles, not beyond 144.5 - 10, and
  the overlay is not flipped. 91.8 - 52 and 19.8 + 20 are the same double, and the overlay
  fits below.
\<close>

lemma fraction_width_page_center:
  "map_option fst (placement_after fraction_width_page) = Some x_center"
  by (simp add: fraction_width_page_def page_defs placement_after_def
      calculateDialogPlacement_def show_invisibly_def reset_dialog_state_def geom_defs
      fl_eval [where e = 5] fl_eval [where e = 6] fl_eval [where e = 7] fl_eval [where e = 8]
      fl_compute)

lemma fraction_height_page_bottom:
  "placement_after fraction_height_page = Some (x_right, y_bottom)"
  by (simp add: fraction_height_page_def page_defs placement_after_def
      calculateDialogPlacement_def show_invisibly_def reset_dialog_state_def geom_defs
      fl_eval [where e = 4] fl_eval [where e = 5] fl_eval [where e = 6] fl_eval [where e = 7]
      fl_compute)

lemma fraction_center_page_bottom:
  "placement_after fraction_center_page = Some (x_center, y_bottom)"
  by (simp add: fraction_center_page_def page_defs placement_after_def
      calculateDialogPlacement_def show_invisibly_def reset_dialog_state_def geom_defs
      fl_eval [where e = 2] fl_eval [where e = 4] fl_eval [where e = 5] fl_eval [where e = 6]
      fl_compute)

subsection \<open>Horizontal placement\<close>

text \<open>
  C1. The published horizontal placement is \<open>right\<close> when the container width minus the
  trigger's right edge (relative to the container) minus the edge gap of 10 is at least the
  overlay width plus the trigger gap of 10; otherwise \<open>left\<close> when the trigger's left edge
  (relative to the container) minus the edge gap is at least that; otherwise \<open>center\<close>.
  The differences, the sums and the comparisons are the code's, on doubles. So a placement
  \<open>right\<close> or \<open>left\<close> is published only when the overlay width plus the gap does not exceed
  the space computed for that side.
\<close>

theorem horizontal_placement:
  assumes "parentElement s = Some c" and "trigger s = Some tr" and "dialog s = Some d"
  shows "map_option fst (placement_after s) =
           Some (if js_ge (js_sub (js_sub (rect_width c)
                                     (js_sub (rect_right (trigger_rect tr)) (rect_left c)))
                             (Finite 10))
                      (js_add (measured_width d) (Finite 10))
                 then x_right
                 else if js_ge (js_sub (js_sub (rect_left (trigger_rect tr)) (rect_left c))
                                  (Finite 10))
                           (js_add (measured_width d) (Finite 10))
                 then x_left
                 else x_center)
         \<and> (map_option fst (placement_after s) = Some x_right \<longrightarrow>
              \<not> js_gt (js_add (measured_width d) (Finite 10))
                   (js_sub (js_sub (rect_width c)
                              (js_sub (rect_right (trigger_rect tr)) (rect_left c)))
                      (Finite 10)))
         \<and> (map_option fst (placement_after s) = Some x_left \<longrightarrow>
              \<not> js_gt (js_add (measured_width d) (Finite 10))
                   (js_sub (js_sub (rect_left (trigger_rect tr)) (rect_left c)) (Finite 10)))"
  by (auto simp: placement_after_present [OF assms] placement_x_def spaceRight_def
      spaceLeft_def buttonLeft_def buttonRight_def BUTTON_GAP_def CONTAINER_GAP_def
      dest: js_ge_not_gt split: if_splits)

text \<open>
  The specification's scenario, with the container's corner at (50, 30) in the viewport:
  there is no room on the right (400 - 390 - 10 = 0), there is on the left
  (350 - 10 = 340), and the placement is \<open>left\<close>.
\<close>

theorem horizontal_placement_witness:
  "parentElement narrow_right_page = Some (rect_of 50 30 400 300)
   \<and> trigger narrow_right_page
       = Some \<lparr>trigger_rect = rect_of 400 130 40 40, trigger_listeners = []\<rparr>
   \<and> dialog narrow_right_page = Some (closed_dialog 100 80)
   \<and> spaceRight (rect_of 50 30 400 300) (rect_of 400 130 40 40) = Finite 0
   \<and> spaceLeft (rect_of 50 30 400 300) (rect_of 400 130 40 40) = Finite 340
   \<and> map_option fst (placement_after narrow_right_page) = Some x_left"
  using horizontal_placement [of narrow_right_page "rect_of 50 30 400 300"
      "\<lparr>trigger_rect = rect_of 400 130 40 40, trigger_listeners = []\<rparr>" "closed_dialog 100 80"]
  by (simp add: narrow_right_page_def page_defs spaceRight_def spaceLeft_def buttonLeft_def
      buttonRight_def BUTTON_GAP_def CONTAINER_GAP_def)

subsection \<open>Vertical placement beside the trigger\<close>

text \<open>
  C2, as the specification states it, fails: the container is 100 high, the trigger's
  bottom is at y = 60 and the overlay is 50 high, so H - y = 40 < 50 and y = 60 \<ge> 50, the
  horizontal placement is \<open>right\<close>, and the vertical placement is \<open>bottom\<close>, not \<open>top\<close>. The
  code compares the trigger's top edge plus the overlay height (10 + 50) with the container
  height minus the edge gap (90).
\<close>

theorem vertical_flip_counterexample:
  "map_option fst (placement_after tall_trigger_page) = Some x_right
   \<and> parentElement tall_trigger_page = Some (rect_of 0 0 400 100)
   \<and> js_lt (js_sub (rect_height (rect_of 0 0 400 100))
               (buttonBottom (rect_of 0 0 400 100) (rect_of 10 10 30 50))) (Finite 50)
   \<and> js_ge (buttonBottom (rect_of 0 0 400 100) (rect_of 10 10 30 50)) (Finite 50)
   \<and> map_option snd (placement_after tall_trigger_page) = Some y_bottom"
  by (simp add: tall_trigger_page_def page_defs placement_after_def calculateDialogPlacement_def
      show_invisibly_def reset_dialog_state_def geom_defs)

text \<open>
  C2, amended. For every horizontal placement other than \<open>center\<close>, the vertical placement
  is \<open>top\<close> exactly when the trigger's top edge (relative to the container) plus the overlay
  height is greater than the container height minus the edge gap of 10, as the code
  computes them on doubles; otherwise it is \<open>bottom\<close>.
\<close>

theorem vertical_flip:
  assumes "parentElement s = Some c" and "trigger s = Some tr" and "dialog s = Some d"
    and "map_option fst (placement_after s) \<noteq> Some x_center"
  shows "map_option snd (placement_after s) =
           Some (if js_gt (js_add (js_sub (rect_top (trigger_rect tr)) (rect_top c))
                             (measured_height d))
                      (js_sub (rect_height c) (Finite 10))
                 then y_top else y_bottom)"
  using assms(4)
  by (simp add: placement_after_present [OF assms(1-3)] placement_y_def buttonTop_def
      CONTAINER_GAP_def Let_def)

text \<open>
  Two pages: the tall trigger, where 10 + 50 is not beyond 90 and the placement is
  \<open>bottom\<close>; and a container with its corner at (50, 30), where the trigger's top is at
  90 - 30 = 60, 60 + 50 is beyond 90 and the placement is \<open>top\<close>.
\<close>

theorem vertical_flip_witness:
  "parentElement top_heavy_page = Some (rect_of 50 30 400 100)
   \<and> trigger top_heavy_page
       = Some \<lparr>trigger_rect = rect_of 60 90 30 30, trigger_listeners = []\<rparr>
   \<and> dialog top_heavy_page = Some (closed_dialog 100 50)
   \<and> map_option fst (placement_after tall_trigger_page) \<noteq> Some x_center
   \<and> map_option snd (placement_after tall_trigger_page) = Some y_bottom
   \<and> map_option fst (placement_after top_heavy_page) \<noteq> Some x_center
   \<and> map_option snd (placement_after top_heavy_page) = Some y_top"
  using vertical_flip [of tall_trigger_page "rect_of 0 0 400 100"
      "\<lparr>trigger_rect = rect_of 10 10 30 50, trigger_listeners = []\<rparr>" "closed_dialog 100 50"]
    vertical_flip [of top_heavy_page "rect_of 50 30 400 100"
      "\<lparr>trigger_rect = rect_of 60 90 30 30, trigger_listeners = []\<rparr>" "closed_dialog 100 50"]
  by (simp add: tall_trigger_page_def top_heavy_page_def page_defs placement_after_def
      calculateDialogPlacement_def show_invisibly_def reset_dialog_state_def geom_defs)




subsection \<open>Vertical placement above or below the trigger\<close>

text \<open>
  C3, as the specification states it, fails in its last case: with the horizontal placement
  \<open>center\<close>, no room below (100 - 70 < 50 + 20) and none above (40 < 50 + 20), the trigger's
  vertical midpoint (55) lies in the lower half of the container (below 50), and the
  vertical placement is \<open>bottom\<close>, not \<open>top\<close>. The code compares the trigger's top edge (40),
  not its midpoint, with half the container height.
\<close>

theorem center_vertical_midpoint_counterexample:
  "map_option fst (placement_after small_container_page) = Some x_center
   \<and> parentElement small_container_page = Some (rect_of 0 0 100 100)
   \<and> \<not> js_ge (js_sub (rect_height (rect_of 0 0 100 100))
                 (buttonBottom (rect_of 0 0 100 100) (rect_of 30 40 40 30)))
          (js_add (lit 50) TOTAL_GAP)
   \<and> \<not> js_ge (buttonTop (rect_of 0 0 100 100) (rect_of 30 40 40 30))
          (js_add (lit 50) TOTAL_GAP)
   \<and> js_gt (js_half (js_add (buttonTop (rect_of 0 0 100 100) (rect_of 30 40 40 30))
                        (buttonBottom (rect_of 0 0 100 100) (rect_of 30 40 40 30))))
        (js_half (rect_height (rect_of 0 0 100 100)))
   \<and> map_option snd (placement_after small_container_page) = Some y_bottom"
  by (simp add: small_container_page_def page_defs placement_after_def
      calculateDialogPlacement_def show_invisibly_def reset_dialog_state_def geom_defs)

text \<open>
  C3, amended. When the horizontal placement is \<open>center\<close>, the vertical placement is
  \<open>bottom\<close> if the container height minus the trigger's bottom (relative to the container)
  is at least the overlay height plus the total gap; else \<open>top\<close> if the trigger's top
  (relative to the container) is at least that; else \<open>bottom\<close> when the trigger's top edge is
  less than half the container height and \<open>top\<close> when it is not; all of it as the code
  computes on doubles.
\<close>

theorem center_vertical_placement:
  assumes "parentElement s = Some c" and "trigger s = Some tr" and "dialog s = Some d"
    and "map_option fst (placement_after s) = Some x_center"
  shows "map_option snd (placement_after s) =
           Some (if js_ge (js_sub (rect_height c)
                             (js_sub (rect_bottom (trigger_rect tr)) (rect_top c)))
                      (js_add (measured_height d) TOTAL_GAP)
                 then y_bottom
                 else if js_ge (js_sub (rect_top (trigger_rect tr)) (rect_top c))
                           (js_add (measured_height d) TOTAL_GAP)
                 then y_top
                 else if js_lt (js_sub (rect_top (trigger_rect tr)) (rect_top c))
                           (js_half (rect_height c))
                 then y_bottom
                 else y_top)"
  using assms(4)
  by (simp add: placement_after_present [OF assms(1-3)] placement_y_def buttonTop_def
      buttonBottom_def)

text \<open>
  Two pages: the small container, where the trigger's top (40) is less than 50; and the
  same container with its corner at (50, 30) in the viewport, where the trigger's top is at
  40 - 30 = 10, there is no room below (100 - 30 < 80 + 20) nor above, and 10 is less
  than 50.
\<close>

theorem center_vertical_placement_witness:
  "parentElement small_offset_page = Some (rect_of 50 30 100 100)
   \<and> trigger small_offset_page
       = Some \<lparr>trigger_rect = rect_of 80 40 40 20, trigger_listeners = []\<rparr>
   \<and> dialog small_offset_page = Some (closed_dialog 100 80)
   \<and> placement_after small_container_page = Some (x_center, y_bottom)
   \<and> js_sub (rect_top (rect_of 80 40 40 20)) (rect_top (rect_of 50 30 100 100)) = Finite 10
   \<and> placement_after small_offset_page = Some (x_center, y_bottom)"
  using center_vertical_placement [of small_container_page "rect_of 0 0 100 100"
      "\<lparr>trigger_rect = rect_of 30 40 40 30, trigger_listeners = []\<rparr>" "closed_dialog 100 50"]
    center_vertical_placement [of small_offset_page "rect_of 50 30 100 100"
      "\<lparr>trigger_rect = rect_of 80 40 40 20, trigger_listeners = []\<rparr>" "closed_dialog 100 80"]
  by (simp add: small_container_page_def small_offset_page_def page_defs placement_after_def
      calculateDialogPlacement_def show_invisibly_def reset_dialog_state_def geom_defs)

subsection \<open>The measurement\<close>

text \<open>
  C9, as the specification states it, fails: an overlay whose markup sets \<^verbatim>\<open>display\<close>
  inline has lost that property after the placement computation. The reset removes the
  three properties; it does not put back what they held.
\<close>

theorem measurement_restore_counterexample:
  "map_option style_display (dialog styled_page) = Some (Some ''flex'')
   \<and> (case calculateDialogPlacement styled_page of
         Inl e \<Rightarrow> False
       | Inr s \<Rightarrow> map_option style_display (dialog s) = Some None)"
  by (simp add: scenario_defs page_defs handler_defs geom_defs new_component_def)

text \<open>
  C9, amended. After measuring the overlay the placement computation removes the inline
  \<^verbatim>\<open>display\<close>, \<^verbatim>\<open>visibility\<close> and \<^verbatim>\<open>transform\<close> properties it set, so none of them remains
  on the overlay; when none of the three was set inline before the measurement, the overlay
  afterwards differs from the overlay before only in the published placement and offset.
\<close>

theorem measurement_leaves_no_inline_style:
  assumes "parentElement s = Some c" and "trigger s = Some tr" and "dialog s = Some d"
  shows "reset_dialog_state (show_invisibly d)
           = d\<lparr>style_visibility := None, style_display := None, style_transform := None,
               data_placement := None\<rparr>
         \<and> (case calculateDialogPlacement s of
               Inl e \<Rightarrow> False
             | Inr s1 \<Rightarrow>
                 (case dialog s1 of
                    None \<Rightarrow> False
                  | Some d1 \<Rightarrow>
                      style_display d1 = None \<and> style_visibility d1 = None
                      \<and> style_transform d1 = None
                      \<and> (style_display d = None \<and> style_visibility d = None
                           \<and> style_transform d = None
                           \<longrightarrow> d1 = d\<lparr>data_placement := data_placement d1,
                                      style_vertical_offset := style_vertical_offset d1\<rparr>)))"
proof (cases d)
  case (fields op sh cl pl vis disp tr wo w h ls)
  then show ?thesis
    by (simp add: calculateDialogPlacement_present [OF assms] show_invisibly_def
        reset_dialog_state_def)
qed

theorem measurement_leaves_no_inline_style_witness:
  "calculateDialogPlacement narrow_right_page
     = Inr (narrow_right_page\<lparr>dialog :=
         Some ((closed_dialog 100 80)\<lparr>data_placement := Some (x_left, y_bottom)\<rparr>)\<rparr>)
   \<and> style_display (closed_dialog 100 80) = None"
  using measurement_leaves_no_inline_style [of narrow_right_page "rect_of 50 30 400 300"
      "\<lparr>trigger_rect = rect_of 400 130 40 40, trigger_listeners = []\<rparr>" "closed_dialog 100 80"]
  by (simp add: narrow_right_page_def page_defs handler_defs geom_defs)

section \<open>Properties of the show, close and hover life cycle\<close>

subsection \<open>Closing while the overlay is shown again\<close>

text \<open>
  C4. \<^verbatim>\<open>closeDialog\<close> marks the overlay as closing and closes it, and is then suspended
  until the animations have settled. When it resumes, in whatever state the events in
  between have left, it clears the showing, closing and placement entries if the overlay is
  closed at that moment, and changes nothing at all if the overlay has been opened again.
\<close>

theorem close_rechecks_before_clearing:
  assumes "dialog s = Some d" and "dialog s1 = Some d1"
  shows "map_option dialog_open (dialog (closeDialog s)) = Some False
         \<and> map_option data_closing (dialog (closeDialog s)) = Some (Some ''true'')
         \<and> closes_in_flight (closeDialog s) = Suc (closes_in_flight s)
         \<and> (dialog_open d1 \<longrightarrow>
              closeDialog_resume s1 = s1 \<and> dialog (step Close_settles s1) = Some d1)
         \<and> (\<not> dialog_open d1 \<longrightarrow>
              closeDialog_resume s1 =
                s1\<lparr>dialog := Some (d1\<lparr>data_showing := None, data_closing := None,
                                      data_placement := None\<rparr>)\<rparr>)"
  using assms by (simp add: closeDialog_def closeDialog_resume_def)

text \<open>
  The overlay is open and Escape starts \<^verbatim>\<open>closeDialog\<close>. Resumed at once, it clears the
  three entries. Resumed after the timer of a new hover has shown the overlay again, it
  clears nothing: the overlay stays open, showing, with its placement.
\<close>

theorem close_rechecks_before_clearing_witness:
  "dialog (run (take 4 reopen_events) hover_page)
     = Some \<lparr>dialog_open = False, data_showing = Some ''true'', data_closing = Some ''true'',
        data_placement = Some (x_right, y_bottom), style_visibility = None,
        style_display = None, style_transform = None, style_vertical_offset = None,
        measured_width = Finite 100, measured_height = Finite 80, dialog_listeners = []\<rparr>
   \<and> map_option data_showing (dialog (closeDialog_resume (run (take 4 reopen_events) hover_page)))
       = Some None
   \<and> map_option data_placement (dialog (closeDialog_resume (run (take 4 reopen_events) hover_page)))
       = Some None
   \<and> dialog (run reopen_events hover_page)
       = Some \<lparr>dialog_open = True, data_showing = Some ''true'', data_closing = Some ''true'',
          data_placement = Some (x_right, y_bottom), style_visibility = None,
          style_display = None, style_transform = None, style_vertical_offset = None,
          measured_width = Finite 100, measured_height = Finite 80,
          dialog_listeners = [(pointerleave, HandlePointerLeave)]\<rparr>
   \<and> closes_in_flight (run reopen_events hover_page) = 1
   \<and> closeDialog_resume (run reopen_events hover_page) = run reopen_events hover_page"
  using close_rechecks_before_clearing [of "run (take 3 reopen_events) hover_page"
      "\<lparr>dialog_open = True, data_showing = Some ''true'', data_closing = None,
        data_placement = Some (x_right, y_bottom), style_visibility = None,
        style_display = None, style_transform = None, style_vertical_offset = None,
        measured_width = Finite 100, measured_height = Finite 80,
        dialog_listeners = [(pointerleave, HandlePointerLeave)]\<rparr>"
      "run (take 4 reopen_events) hover_page"
      "\<lparr>dialog_open = False, data_showing = Some ''true'', data_closing = Some ''true'',
        data_placement = Some (x_right, y_bottom), style_visibility = None,
        style_display = None, style_transform = None, style_vertical_offset = None,
        measured_width = Finite 100, measured_height = Finite 80, dialog_listeners = []\<rparr>"]
    close_rechecks_before_clearing [of "run (take 3 reopen_events) hover_page"
      "\<lparr>dialog_open = True, data_showing = Some ''true'', data_closing = None,
        data_placement = Some (x_right, y_bottom), style_visibility = None,
        style_display = None, style_transform = None, style_vertical_offset = None,
        measured_width = Finite 100, measured_height = Finite 80,
        dialog_listeners = [(pointerleave, HandlePointerLeave)]\<rparr>"
      "run reopen_events hover_page"
      "\<lparr>dialog_open = True, data_showing = Some ''true'', data_closing = Some ''true'',
        data_placement = Some (x_right, y_bottom), style_visibility = None,
        style_display = None, style_transform = None, style_vertical_offset = None,
        measured_width = Finite 100, measured_height = Finite 80,
        dialog_listeners = [(pointerleave, HandlePointerLeave)]\<rparr>"]
  by (simp add: scenario_defs page_defs handler_defs geom_defs)

subsection \<open>Absent nodes\<close>

text \<open>
  C5, as the specification states it, fails: for a hotspot without a parent element the
  placement computation returns early and changes nothing, and \<^verbatim>\<open>showDialog\<close> goes on and
  opens the overlay.
\<close>

theorem absent_container_counterexample:
  "parentElement shadow_root_page = None
   \<and> map_option dialog_open (dialog shadow_root_page) = Some False
   \<and> calculateDialogPlacement shadow_root_page = Inr shadow_root_page
   \<and> map_option dialog_open
        (dialog (run [Pointerenter_on_trigger, Timeout_fires 1, Show_settles] shadow_root_page))
       = Some True"
  by (simp add: scenario_defs page_defs handler_defs)

text \<open>
  C5, amended. Without the dialog, \<^verbatim>\<open>showDialog\<close>, \<^verbatim>\<open>closeDialog\<close>, the two light-dismiss
  handlers and the listener setup change nothing and the pointer-leave handler only clears
  the timer. Without the trigger, the listener setup changes nothing, the teardown only
  clears the timer, and \<^verbatim>\<open>closeDialog\<close> and the pointer-leave handler leave the trigger
  alone. Without the container, the placement computation returns early, changes nothing
  and does not throw, and \<^verbatim>\<open>showDialog\<close> then marks the overlay as showing and opens it.
  None of these functions can throw: only \<^const>\<open>calculateDialogPlacement\<close> and
  \<^const>\<open>showDialog\<close> have an error result, and here it is \<open>Inr\<close>.
\<close>

theorem absent_nodes:
  "(dialog s = None \<longrightarrow>
      showDialog s = Inr s \<and> closeDialog s = s \<and> lightDismissMouse b s = s
      \<and> lightDismissKeyboard k s = s \<and> setupDesktopListeners s = s
      \<and> handlePointerLeave e s = clear_timer s)
   \<and> (trigger s = None \<longrightarrow>
        setupDesktopListeners s = s \<and> removeDesktopListeners s = clear_timer s
        \<and> trigger (closeDialog s) = None \<and> trigger (handlePointerLeave e s) = None)
   \<and> (parentElement s = None \<longrightarrow>
        calculateDialogPlacement s = Inr s
        \<and> (dialog s = Some d \<longrightarrow>
             showDialog s = Inr (s\<lparr>shows_in_flight := Suc (shows_in_flight s)\<rparr>)
             \<and> dialog (step Show_settles (timer_callback s))
                 = Some (d\<lparr>data_showing := Some ''true'', dialog_open := True,
                      dialog_listeners :=
                        addEventListener pointerleave HandlePointerLeave (dialog_listeners d)\<rparr>)))"
proof (intro conjI impI)
  assume "dialog s = None"
  then show "showDialog s = Inr s" "closeDialog s = s" "lightDismissMouse b s = s"
    "lightDismissKeyboard k s = s" "setupDesktopListeners s = s"
    "handlePointerLeave e s = clear_timer s"
    by (simp_all add: showDialog_def closeDialog_def lightDismissMouse_def
        lightDismissKeyboard_def setupDesktopListeners_def handlePointerLeave_def
        clear_timer_def split: option.splits)
next
  assume "trigger s = None"
  then show "setupDesktopListeners s = s" "removeDesktopListeners s = clear_timer s"
    "trigger (closeDialog s) = None" "trigger (handlePointerLeave e s) = None"
    by (simp_all add: setupDesktopListeners_def removeDesktopListeners_def closeDialog_def
        handlePointerLeave_def clear_timer_def Let_def split: option.splits)
next
  assume p: "parentElement s = None"
  then show "calculateDialogPlacement s = Inr s"
    by (simp add: calculateDialogPlacement_def)
  assume d: "dialog s = Some d"
  with p show "showDialog s = Inr (s\<lparr>shows_in_flight := Suc (shows_in_flight s)\<rparr>)"
    by (simp add: showDialog_def calculateDialogPlacement_def)
  with d show "dialog (step Show_settles (timer_callback s))
                 = Some (d\<lparr>data_showing := Some ''true'', dialog_open := True,
                      dialog_listeners :=
                        addEventListener pointerleave HandlePointerLeave (dialog_listeners d)\<rparr>)"
    by (simp add: timer_callback_def showDialog_resume_def)
qed

theorem absent_nodes_witness:
  "dialog (new_component (Some \<lparr>trigger_rect = rect_of 20 100 40 40, trigger_listeners = []\<rparr>)
             None (Some (rect_of 0 0 400 300))) = None
   \<and> trigger (new_component None (Some (closed_dialog 100 80)) (Some (rect_of 0 0 400 300))) = None
   \<and> parentElement shadow_root_page = None
   \<and> showDialog (new_component (Some \<lparr>trigger_rect = rect_of 20 100 40 40, trigger_listeners = []\<rparr>)
             None (Some (rect_of 0 0 400 300)))
       = Inr (new_component (Some \<lparr>trigger_rect = rect_of 20 100 40 40, trigger_listeners = []\<rparr>)
             None (Some (rect_of 0 0 400 300)))
   \<and> setupDesktopListeners
        (new_component None (Some (closed_dialog 100 80)) (Some (rect_of 0 0 400 300)))
       = new_component None (Some (closed_dialog 100 80)) (Some (rect_of 0 0 400 300))
   \<and> map_option dialog_open (dialog (step Show_settles (timer_callback shadow_root_page)))
       = Some True"
  using absent_nodes [of "new_component
        (Some \<lparr>trigger_rect = rect_of 20 100 40 40, trigger_listeners = []\<rparr>)
        None (Some (rect_of 0 0 400 300))"]
    absent_nodes [of "new_component None (Some (closed_dialog 100 80)) (Some (rect_of 0 0 400 300))"]
    absent_nodes [of shadow_root_page _ _ _ "closed_dialog 100 80"]
  by (simp add: scenario_defs page_defs handler_defs)

subsection \<open>Leaving the trigger while the timer is pending\<close>

text \<open>
  C6, as the specification states it, fails: after a pointer-enter and a pointer-leave the
  timer is cancelled, and the trigger still carries the \<^verbatim>\<open>pointerleave\<close> listener that the
  pointer-enter registered.
\<close>

theorem leave_while_pending_counterexample:
  "timeouts (run [Pointerenter_on_trigger] hover_page) = [1]
   \<and> map_option dialog_open (dialog (run [Pointerenter_on_trigger] hover_page)) = Some False
   \<and> timeouts (run [Pointerenter_on_trigger, leave_trigger] hover_page) = []
   \<and> map_option trigger_listeners (trigger (run [Pointerenter_on_trigger, leave_trigger] hover_page))
       = Some [(pointerenter, PointerenterHandler 0), (pointerleave, HandlePointerLeave)]"
  by (simp add: scenario_defs page_defs handler_defs geom_defs)

text \<open>
  C6, amended. When the pointer leaves while a timer is pending and the overlay is not
  open, \<^verbatim>\<open>#handlePointerLeave\<close> cancels the timer and clears the handle, and changes
  nothing else: the listeners of the trigger are as they were.
\<close>

theorem leave_while_pending:
  assumes "dialog s = Some d" and "\<not> dialog_open d" and "timer s = Some t"
  shows "handlePointerLeave e s = s\<lparr>timeouts := removeAll t (timeouts s), timer := None\<rparr>
         \<and> t \<notin> set (timeouts (handlePointerLeave e s))
         \<and> trigger (handlePointerLeave e s) = trigger s"
  using assms by (simp add: handlePointerLeave_def clear_timer_def clearTimeout_def)

theorem leave_while_pending_witness:
  "timer (run [Pointerenter_on_trigger] hover_page) = Some 1
   \<and> timeouts (handlePointerLeave \<lparr>target = node_trigger, relatedTarget = Some node_other\<rparr>
        (run [Pointerenter_on_trigger] hover_page)) = []
   \<and> timer (handlePointerLeave \<lparr>target = node_trigger, relatedTarget = Some node_other\<rparr>
        (run [Pointerenter_on_trigger] hover_page)) = None"
  using leave_while_pending [of "run [Pointerenter_on_trigger] hover_page"
      "closed_dialog 100 80" 1 "\<lparr>target = node_trigger, relatedTarget = Some node_other\<rparr>"]
  by (simp add: scenario_defs page_defs handler_defs geom_defs)

subsection \<open>The hover wiring stays consistent\<close>

lemma removeAll_both_Nil:
  assumes "set xs \<subseteq> {a, b}"
  shows "removeAll b (removeAll a xs) = []"
  using assms by (induction xs) auto

lemma removeAll_only_Nil: "set xs \<subseteq> {a} \<Longrightarrow> removeAll a xs = []"
  by (induction xs) auto

lemma wired_unwired_closures:
  assumes "wired s" and "trigger s = Some tr" and "pointerenterHandler s = None"
  shows "filter (\<lambda>l. fst l = pointerenter) (trigger_listeners tr) = []"
  using assms by (simp add: wired_def)

lemma wired_cong:
  "trigger s1 = trigger s \<Longrightarrow> pointerenterHandler s1 = pointerenterHandler s
     \<Longrightarrow> wired s1 = wired s"
  by (simp add: wired_def split: option.splits)

lemma wired_pointerenter_handler:
  "wired s \<Longrightarrow> pointerenterHandler s = Some h
     \<Longrightarrow> wired (pointerenter_handler s) \<and> pointerenterHandler (pointerenter_handler s) = Some h"
  by (auto simp: wired_def pointerenter_handler_def addEventListener_def Let_def
      split: option.splits)

lemma wired_pointerenter_handlers:
  "wired s \<Longrightarrow> pointerenterHandler s = Some h
     \<Longrightarrow> wired ((pointerenter_handler ^^ n) s)
         \<and> pointerenterHandler ((pointerenter_handler ^^ n) s) = Some h"
  by (induction n) (simp_all add: wired_pointerenter_handler)

lemma wired_clear_timer: "wired (clear_timer s) = wired s"
  by (simp add: wired_def clear_timer_def split: option.splits)

lemma wired_closeDialog: "wired s \<Longrightarrow> wired (closeDialog s)"
  by (auto simp: wired_def closeDialog_def removeEventListener_def distinct_removeAll
      split: option.splits)

lemma wired_handlePointerLeave: "wired s \<Longrightarrow> wired (handlePointerLeave e s)"
  by (simp add: handlePointerLeave_def Let_def wired_clear_timer wired_closeDialog
      split: option.splits)

lemma calculateDialogPlacement_frame:
  "calculateDialogPlacement s = Inr s1 \<Longrightarrow>
     trigger s1 = trigger s \<and> pointerenterHandler s1 = pointerenterHandler s
     \<and> timeouts s1 = timeouts s \<and> timer s1 = timer s"
  by (auto simp: calculateDialogPlacement_def Let_def split: option.splits prod.splits)

lemma timer_callback_frame:
  "trigger (timer_callback s) = trigger s
   \<and> pointerenterHandler (timer_callback s) = pointerenterHandler s
   \<and> timeouts (timer_callback s) = timeouts s \<and> timer (timer_callback s) = timer s"
  by (auto simp: timer_callback_def showDialog_def dest!: calculateDialogPlacement_frame
      split: option.splits sum.splits)

lemma wired_timer_callback: "wired (timer_callback s) = wired s"
  by (rule wired_cong) (simp_all add: timer_callback_frame)

lemma wired_removeDesktopListeners: "wired s \<Longrightarrow> wired (removeDesktopListeners s)"
  by (auto simp: removeDesktopListeners_def clear_timer_def wired_def removeEventListener_def
      removeAll_both_Nil Let_def split: option.splits)

lemma unwired_removeDesktopListeners:
  "wired s \<Longrightarrow> trigger (removeDesktopListeners s) = Some tr \<Longrightarrow> trigger_listeners tr = []"
  by (auto simp: removeDesktopListeners_def clear_timer_def wired_def removeEventListener_def
      removeAll_both_Nil Let_def split: option.splits)


lemma unwired_trigger:
  assumes "wired s" and "trigger s = Some tr"
  shows "trigger (removeDesktopListeners s) = Some (tr\<lparr>trigger_listeners := []\<rparr>)"
proof (cases "pointerenterHandler s")
  case None
  with assms have "trigger_listeners tr = []" by (simp add: wired_def)
  then have "tr\<lparr>trigger_listeners := []\<rparr> = tr" by (cases tr) simp
  with None assms(2) show ?thesis
    by (simp add: removeDesktopListeners_def clear_timer_def Let_def split: option.splits)
next
  case (Some h)
  with assms have "set (trigger_listeners tr)
      \<subseteq> {(pointerenter, PointerenterHandler h), (pointerleave, HandlePointerLeave)}"
    by (simp add: wired_def)
  then have "removeAll (pointerleave, HandlePointerLeave)
      (removeAll (pointerenter, PointerenterHandler h) (trigger_listeners tr)) = []"
    by (rule removeAll_both_Nil)
  with Some assms(2) show ?thesis
    by (simp add: removeDesktopListeners_def clear_timer_def removeEventListener_def Let_def
        split: option.splits)
qed

lemma wired_setupDesktopListeners:
  assumes "wired s" and "\<And>tr. trigger s = Some tr \<Longrightarrow> trigger_listeners tr = []"
  shows "wired (setupDesktopListeners s)"
  using assms
  by (auto simp: setupDesktopListeners_def wired_def addEventListener_def split: option.splits)

lemma wired_handleBreakpointChange: "wired s \<Longrightarrow> wired (handleBreakpointChange m s)"
  by (simp add: handleBreakpointChange_def Let_def wired_removeDesktopListeners
      unwired_removeDesktopListeners wired_setupDesktopListeners)

lemma wired_step: "wired s \<Longrightarrow> wired (step e s)"
proof (cases e)
  case Pointerenter_on_trigger
  assume w: "wired s"
  show ?thesis
  proof (cases "trigger s")
    case None
    with w Pointerenter_on_trigger show ?thesis by simp
  next
    case (Some tr)
    show ?thesis
    proof (cases "pointerenterHandler s")
      case None
      with w Some Pointerenter_on_trigger show ?thesis
        by (simp add: wired_unwired_closures)
    next
      case (Some h)
      with w \<open>trigger s = Some tr\<close> Pointerenter_on_trigger show ?thesis
        by (simp add: wired_pointerenter_handlers)
    qed
  qed
next
  case (Pointerleave pe)
  assume "wired s"
  with Pointerleave show ?thesis
    by (simp add: wired_handlePointerLeave split: node.splits option.splits)
next
  case (Timeout_fires t)
  assume "wired s"
  then have "wired (s\<lparr>timeouts := removeAll t (timeouts s)\<rparr>)"
    by (simp add: wired_def split: option.splits)
  with \<open>wired s\<close> Timeout_fires show ?thesis
    by (simp add: wired_timer_callback)
next
  case (Click_on_body b)
  assume "wired s"
  with Click_on_body show ?thesis
    by (simp add: lightDismissMouse_def wired_closeDialog split: option.splits)
next
  case (Key_on_body k)
  assume "wired s"
  with Key_on_body show ?thesis
    by (simp add: lightDismissKeyboard_def wired_closeDialog split: option.splits)
next
  case (Breakpoint_change m)
  assume "wired s"
  with Breakpoint_change show ?thesis
    by (simp add: wired_handleBreakpointChange)
next
  case Show_settles
  assume "wired s"
  with Show_settles show ?thesis
    by (simp add: showDialog_resume_def wired_def split: option.splits)
next
  case Close_settles
  assume "wired s"
  with Close_settles show ?thesis
    by (simp add: closeDialog_resume_def wired_def split: option.splits)
qed

text \<open>
  Every state the event loop reaches from a newly connected component, whose trigger
  carries no listener yet, is consistently wired.
\<close>

lemma wired_connectedCallback:
  "wired (connectedCallback isMobile
     (new_component (Some \<lparr>trigger_rect = r, trigger_listeners = []\<rparr>) d p))"
  by (simp add: wired_def connectedCallback_def new_component_def setupDesktopListeners_def
      addEventListener_def split: option.splits)

lemma wired_run: "wired s \<Longrightarrow> wired (run evs s)"
proof (induction evs arbitrary: s)
  case Nil
  then show ?case by (simp add: run_def)
next
  case (Cons e evs)
  from Cons.IH [OF wired_step [OF Cons.prems]] show ?case by (simp add: run_def)
qed

text \<open>What setup and teardown do to the timer.\<close>

lemma timeouts_setupDesktopListeners: "timeouts (setupDesktopListeners s) = timeouts s"
  by (simp add: setupDesktopListeners_def split: option.splits)

lemma timer_setupDesktopListeners: "timer (setupDesktopListeners s) = timer s"
  by (simp add: setupDesktopListeners_def split: option.splits)

lemma timeouts_removeDesktopListeners:
  "timeouts (removeDesktopListeners s)
     = (case timer s of None \<Rightarrow> timeouts s | Some t \<Rightarrow> removeAll t (timeouts s))"
  by (simp add: removeDesktopListeners_def clear_timer_def clearTimeout_def Let_def
      split: option.splits)

lemma timer_removeDesktopListeners: "timer (removeDesktopListeners s) = None"
  by (simp add: removeDesktopListeners_def clear_timer_def Let_def split: option.splits)

lemma timeouts_handleBreakpointChange:
  "timeouts (handleBreakpointChange m s)
     = (case timer s of None \<Rightarrow> timeouts s | Some t \<Rightarrow> removeAll t (timeouts s))"
  by (simp add: handleBreakpointChange_def Let_def timeouts_setupDesktopListeners
      timeouts_removeDesktopListeners)

lemma timer_handleBreakpointChange: "timer (handleBreakpointChange m s) = None"
  by (simp add: handleBreakpointChange_def Let_def timer_setupDesktopListeners
      timer_removeDesktopListeners)

subsection \<open>At most one hover timer\<close>

text \<open>
  A pointer-enter while the overlay is open changes nothing: it starts no timer and
  registers no listener.
\<close>

lemma pointerenter_while_open:
  assumes "dialog s = Some d" and "dialog_open d"
  shows "step Pointerenter_on_trigger s = s"
proof -
  have "pointerenter_handler s = s"
    using assms by (simp add: pointerenter_handler_def)
  then have "(pointerenter_handler ^^ n) s = s" for n
    by (induction n) simp_all
  then show ?thesis by (simp split: option.splits)
qed

text \<open>
  C7. At most one hover-intent timer is to be pending at any time, and the component keeps
  one handle, which it clears when the pointer leaves and on teardown. The pointer-enter
  closure misses that: it overwrites \<^verbatim>\<open>this.timer\<close> without clearing the timer the handle
  held (line 56), guarded only by \<^verbatim>\<open>dialog.open\<close>. After the events of
  \<^const>\<open>reentry_events\<close>, in which one pointer enters and leaves the trigger in turn, the
  timers 2 and 3 are both pending and the handle holds 3.
\<close>

theorem reentry_leaves_two_timers:
  "timeouts (run reentry_events hover_page) = [2, 3]
   \<and> timer (run reentry_events hover_page) = Some 3
   \<and> \<not> length (timeouts (run reentry_events hover_page)) \<le> 1"
  by (simp add: scenario_defs page_defs handler_defs geom_defs)

subsection \<open>Breakpoint changes\<close>

text \<open>
  From a consistently wired state a breakpoint change removes the hover listeners from the
  trigger, clears the handle and cancels its timer, and registers a new closure only when
  the viewport is not mobile.
\<close>

lemma handleBreakpointChange_effect:
  assumes "wired s"
  shows "timer (handleBreakpointChange isMobile s) = None
         \<and> (timer s = Some t \<longrightarrow>
              t \<notin> set (timeouts (handleBreakpointChange isMobile s))
              \<and> step (Timeout_fires t) (handleBreakpointChange isMobile s)
                  = handleBreakpointChange isMobile s)
         \<and> (timer s = Some t \<and> set (timeouts s) \<subseteq> {t} \<longrightarrow>
              timeouts (handleBreakpointChange isMobile s) = [])
         \<and> (isMobile \<and> trigger s = Some tr \<longrightarrow>
              trigger (handleBreakpointChange isMobile s) = Some (tr\<lparr>trigger_listeners := []\<rparr>)
              \<and> step Pointerenter_on_trigger (handleBreakpointChange isMobile s)
                  = handleBreakpointChange isMobile s)
         \<and> (\<not> isMobile \<and> trigger s = Some tr \<and> dialog s = Some d \<longrightarrow>
              trigger (handleBreakpointChange isMobile s)
                = Some (tr\<lparr>trigger_listeners :=
                     [(pointerenter, PointerenterHandler (closure_count s))]\<rparr>)
              \<and> pointerenterHandler (handleBreakpointChange isMobile s) = Some (closure_count s))"
proof (intro conjI impI)
  show "timer (handleBreakpointChange isMobile s) = None"
    by (rule timer_handleBreakpointChange)
next
  assume t: "timer s = Some t"
  then show "t \<notin> set (timeouts (handleBreakpointChange isMobile s))"
    by (simp add: timeouts_handleBreakpointChange)
  then show "step (Timeout_fires t) (handleBreakpointChange isMobile s)
               = handleBreakpointChange isMobile s"
    by simp
next
  assume "timer s = Some t \<and> set (timeouts s) \<subseteq> {t}"
  then have "timer s = Some t" and "removeAll t (timeouts s) = []"
    by (simp_all add: removeAll_only_Nil)
  then show "timeouts (handleBreakpointChange isMobile s) = []"
    by (simp add: timeouts_handleBreakpointChange)
next
  assume a: "isMobile \<and> trigger s = Some tr"
  then have tr1: "trigger (removeDesktopListeners s) = Some (tr\<lparr>trigger_listeners := []\<rparr>)"
    by (simp add: unwired_trigger [OF assms])
  with a show r: "trigger (handleBreakpointChange isMobile s)
                     = Some (tr\<lparr>trigger_listeners := []\<rparr>)"
    by (simp add: handleBreakpointChange_def Let_def)
  then show "step Pointerenter_on_trigger (handleBreakpointChange isMobile s)
               = handleBreakpointChange isMobile s"
    by simp
next
  assume a: "\<not> isMobile \<and> trigger s = Some tr \<and> dialog s = Some d"
  then have tr1: "trigger (removeDesktopListeners s) = Some (tr\<lparr>trigger_listeners := []\<rparr>)"
    by (simp add: unwired_trigger [OF assms])
  from a have frame: "dialog (removeDesktopListeners s) = Some d"
    "closure_count (removeDesktopListeners s) = closure_count s"
    by (auto simp: removeDesktopListeners_def clear_timer_def Let_def split: option.splits)
  from a tr1 frame
  show "trigger (handleBreakpointChange isMobile s)
          = Some (tr\<lparr>trigger_listeners :=
               [(pointerenter, PointerenterHandler (closure_count s))]\<rparr>)"
    and "pointerenterHandler (handleBreakpointChange isMobile s) = Some (closure_count s)"
    by (simp_all add: handleBreakpointChange_def Let_def setupDesktopListeners_def
        addEventListener_def)
qed

text \<open>
  C8. A breakpoint change is to cancel every pending hover-intent timer, and the teardown
  clears the one whose handle is in \<^verbatim>\<open>this.timer\<close> (lines 79 to 82). It misses a timer whose
  handle the pointer-enter closure has overwritten: after the events of
  \<^const>\<open>reentry_events\<close> timers 2 and 3 are pending, the change to the mobile breakpoint
  cancels timer 3, and timer 2 fires and opens the overlay on the mobile viewport.
\<close>

theorem breakpoint_change_leaves_timer:
  "timeouts (run reentry_events hover_page) = [2, 3]
   \<and> timeouts (run (reentry_events @ [Breakpoint_change True]) hover_page) = [2]
   \<and> shows_in_flight (run (reentry_events @ [Breakpoint_change True, Timeout_fires 2]) hover_page) = 1
   \<and> map_option dialog_open (dialog (run
        (reentry_events @ [Breakpoint_change True, Timeout_fires 2, Show_settles]) hover_page))
       = Some True"
  by (simp add: scenario_defs page_defs handler_defs geom_defs)

end
